theory Spec2Isabelle
  imports Complex_Main
begin

section \<open>Python strings\<close>

text \<open>
  The interview core works on Python \<open>str\<close> values. They are modelled as HOL strings,
  lists of characters, a character being a code point below 256 (Latin-1); on these the
  string functions below are Python's. Text with a code point from 256 on is not
  representable.
\<close>

datatype pyerror = KeyError string | AttributeError string

definition ascii_upper :: string where
  "ascii_upper = ''ABCDEFGHIJKLMNOPQRSTUVWXYZ''"

definition ascii_lower :: string where
  "ascii_lower = ''abcdefghijklmnopqrstuvwxyz''"

definition ascii_digits :: string where
  "ascii_digits = ''0123456789''"

text \<open>The upper-case letters of Latin-1 beyond ASCII (0xC0 to 0xDE without the
  multiplication sign 0xD7) and their lower-case forms (0xE0 to 0xFE without 0xF7).\<close>

definition latin1_upper :: string where
  "latin1_upper =
   [CHR 0xC0, CHR 0xC1, CHR 0xC2, CHR 0xC3, CHR 0xC4, CHR 0xC5, CHR 0xC6, CHR 0xC7,
    CHR 0xC8, CHR 0xC9, CHR 0xCA, CHR 0xCB, CHR 0xCC, CHR 0xCD, CHR 0xCE, CHR 0xCF,
    CHR 0xD0, CHR 0xD1, CHR 0xD2, CHR 0xD3, CHR 0xD4, CHR 0xD5, CHR 0xD6, CHR 0xD8,
    CHR 0xD9, CHR 0xDA, CHR 0xDB, CHR 0xDC, CHR 0xDD, CHR 0xDE]"

definition latin1_lower :: string where
  "latin1_lower =
   [CHR 0xE0, CHR 0xE1, CHR 0xE2, CHR 0xE3, CHR 0xE4, CHR 0xE5, CHR 0xE6, CHR 0xE7,
    CHR 0xE8, CHR 0xE9, CHR 0xEA, CHR 0xEB, CHR 0xEC, CHR 0xED, CHR 0xEE, CHR 0xEF,
    CHR 0xF0, CHR 0xF1, CHR 0xF2, CHR 0xF3, CHR 0xF4, CHR 0xF5, CHR 0xF6, CHR 0xF8,
    CHR 0xF9, CHR 0xFA, CHR 0xFB, CHR 0xFC, CHR 0xFD, CHR 0xFE]"

definition char_lower :: "char \<Rightarrow> char" where
  "char_lower c = (case map_of (zip (ascii_upper @ latin1_upper) (ascii_lower @ latin1_lower)) c of
                     Some d \<Rightarrow> d | None \<Rightarrow> c)"

text \<open>\<open>s.lower()\<close>.\<close>

definition str_lower :: "string \<Rightarrow> string" where
  "str_lower s = map char_lower s"

text \<open>\<open>s.upper()\<close> can leave Latin-1: the sharp s 0xDF becomes \<open>SS\<close>, the micro sign
  0xB5 becomes U+039C and the y with diaeresis 0xFF becomes U+0178. Its result is a list
  of code points.\<close>

datatype codepoint = Latin1 char | Beyond nat

definition char_upper :: "char \<Rightarrow> codepoint list" where
  "char_upper c =
     (if c = CHR 0xDF then [Latin1 CHR ''S'', Latin1 CHR ''S'']
      else if c = CHR 0xB5 then [Beyond 0x39C]
      else if c = CHR 0xFF then [Beyond 0x178]
      else (case map_of (zip (ascii_lower @ latin1_lower) (ascii_upper @ latin1_upper)) c of
              Some d \<Rightarrow> [Latin1 d] | None \<Rightarrow> [Latin1 c]))"

definition str_upper :: "string \<Rightarrow> codepoint list" where
  "str_upper s = concat (map char_upper s)"

text \<open>A string literal of the source as code points.\<close>

definition literal :: "string \<Rightarrow> codepoint list" where
  "literal s = map Latin1 s"

text \<open>\<open>c.isdigit()\<close> (the digits and the superscripts 0xB2, 0xB3, 0xB9), the decimal
  digits that \<open>int\<close> reads, the class \<open>[a-z0-9]\<close> of the regular expressions, and
  \<open>c.isspace()\<close>, which is also the class \<open>\s\<close> (tab, line feed, vertical tab, form
  feed, carriage return, the four separators 0x1C to 0x1F, the blank, the next-line
  control 0x85 and the no-break space 0xA0).\<close>

definition is_digit :: "char \<Rightarrow> bool" where
  "is_digit c = (c \<in> set (ascii_digits @ [CHR 0xB2, CHR 0xB3, CHR 0xB9]))"

definition is_decimal :: "char \<Rightarrow> bool" where
  "is_decimal c = (c \<in> set ascii_digits)"

definition is_alnum_lower :: "char \<Rightarrow> bool" where
  "is_alnum_lower c = (c \<in> set (ascii_lower @ ascii_digits))"

definition is_space :: "char \<Rightarrow> bool" where
  "is_space c = (c \<in> set [CHR 0x09, CHR 0x0A, CHR 0x0B, CHR 0x0C, CHR 0x0D,
                           CHR 0x1C, CHR 0x1D, CHR 0x1E, CHR 0x1F, CHR 0x20,
                           CHR 0x85, CHR 0xA0])"

text \<open>\<open>s.lstrip()\<close>, \<open>s.rstrip()\<close> and \<open>s.strip()\<close>.\<close>

definition lstrip :: "string \<Rightarrow> string" where
  "lstrip s = dropWhile is_space s"

definition rstrip :: "string \<Rightarrow> string" where
  "rstrip s = rev (dropWhile is_space (rev s))"

definition strip :: "string \<Rightarrow> string" where
  "strip s = rstrip (lstrip s)"

text \<open>\<open>s.startswith(p)\<close>, written with the string first.\<close>

fun startswith :: "'a list \<Rightarrow> 'a list \<Rightarrow> bool" where
  "startswith s [] = True"
| "startswith [] (p # ps) = False"
| "startswith (c # cs) (p # ps) = (c = p \<and> startswith cs ps)"

text \<open>\<open>sub in s\<close> on strings: \<open>sub\<close> occurs in \<open>s\<close> as a contiguous substring.\<close>

fun contains :: "string \<Rightarrow> string \<Rightarrow> bool" where
  "contains sub [] = (sub = [])"
| "contains sub (c # cs) = (startswith (c # cs) sub \<or> contains sub cs)"

text \<open>The maximal runs of characters that are not separators: \<open>s.split()\<close> when the
  separators are the white space, \<open>re.findall(r"[a-z0-9]+", s)\<close> when they are the
  characters outside \<open>[a-z0-9]\<close>.\<close>

fun split_acc :: "(char \<Rightarrow> bool) \<Rightarrow> string \<Rightarrow> string \<Rightarrow> string list" where
  "split_acc sep acc [] = (if acc = [] then [] else [rev acc])"
| "split_acc sep acc (c # cs) =
     (if sep c then (if acc = [] then split_acc sep [] cs else rev acc # split_acc sep [] cs)
      else split_acc sep (c # acc) cs)"

definition split_ws :: "string \<Rightarrow> string list" where
  "split_ws s = split_acc is_space [] s"

definition findall_alnum :: "string \<Rightarrow> string list" where
  "findall_alnum s = split_acc (\<lambda>c. \<not> is_alnum_lower c) [] s"

section \<open>Python numbers\<close>

text \<open>
  A Python \<open>float\<close> is an IEEE 754 double. A finite double is modelled by the rational
  number it denotes, and every arithmetic operation on floats rounds its exact result to
  the nearest double, a tie going to the even significand: \<open>fl\<close> is that rounding, with
  52 fraction bits and the subnormal numbers below \<open>2\<^sup>-\<^sup>1\<^sup>0\<^sup>2\<^sup>2\<close>. The exponent is not bounded
  above: a double overflows only beyond \<open>1.7e308\<close>, which the sums of the scorer could
  reach only after more than \<open>1e307\<close> calls.
\<close>

text \<open>Python's \<open>round\<close> on a float: the nearest integer, a tie going to the even one.\<close>

definition py_round :: "rat \<Rightarrow> int" where
  "py_round x =
     (let f = \<lfloor>x\<rfloor>; d = x - of_int f
      in if d < 1/2 then f else if 1/2 < d then f + 1 else if even f then f else f + 1)"

text \<open>The number of binary digits of a natural number, and \<open>ilog2 x\<close>, the integer \<open>e\<close>
  with \<open>2\<^sup>e \<le> x < 2\<^sup>e\<^sup>+\<^sup>1\<close> for a positive \<open>x\<close>.\<close>

fun bit_length :: "nat \<Rightarrow> nat" where
  "bit_length n = (if n = 0 then 0 else Suc (bit_length (n div 2)))"

declare bit_length.simps [simp del]

definition ilog2 :: "rat \<Rightarrow> int" where
  "ilog2 x = (if 1 \<le> x then int (bit_length (nat \<lfloor>x\<rfloor>)) - 1
              else - int (bit_length (nat (\<lceil>1 / x\<rceil> - 1))))"

definition pow2 :: "int \<Rightarrow> rat" where
  "pow2 e = (if 0 \<le> e then 2 ^ nat e else 1 / 2 ^ nat (- e))"

definition fl :: "rat \<Rightarrow> rat" where
  "fl x = (if x = 0 then 0
           else let e = max (ilog2 \<bar>x\<bar>) (- 1022); q = pow2 (e - 52)
                in of_int (py_round (x / q)) * q)"

text \<open>The operations \<open>+\<close>, \<open>-\<close>, \<open>*\<close> and \<open>/\<close> on two floats.\<close>

definition fadd :: "rat \<Rightarrow> rat \<Rightarrow> rat" where
  "fadd a b = fl (a + b)"

definition fsub :: "rat \<Rightarrow> rat \<Rightarrow> rat" where
  "fsub a b = fl (a - b)"

definition fmul :: "rat \<Rightarrow> rat \<Rightarrow> rat" where
  "fmul a b = fl (a * b)"

definition fdiv :: "rat \<Rightarrow> rat \<Rightarrow> rat" where
  "fdiv a b = fl (a / b)"

text \<open>A number that is an \<open>int\<close> or a \<open>float\<close>; \<open>to_float\<close> is the conversion that an
  operation with a float applies to an \<open>int\<close>.\<close>

datatype pynum = PyInt int | PyFloat rat

definition to_float :: "pynum \<Rightarrow> rat" where
  "to_float x = (case x of PyInt i \<Rightarrow> fl (of_int i) | PyFloat r \<Rightarrow> r)"

text \<open>\<open>sum(xs)\<close>, from the start value 0: integers are added exactly as long as every
  item is an \<open>int\<close>; from the first \<open>float\<close> on, the sum is a float and each item is added
  to it from the left. (This is \<open>sum\<close> up to CPython 3.11; the compensated summation of
  3.12 gives the same result whenever the partial sums are exact.)\<close>

fun sum_float :: "rat \<Rightarrow> pynum list \<Rightarrow> rat" where
  "sum_float f [] = f"
| "sum_float f (x # xs) = sum_float (fadd f (to_float x)) xs"

fun sum_int :: "int \<Rightarrow> pynum list \<Rightarrow> pynum" where
  "sum_int i [] = PyInt i"
| "sum_int i (PyInt j # xs) = sum_int (i + j) xs"
| "sum_int i (PyFloat r # xs) = PyFloat (sum_float (fadd (fl (of_int i)) r) xs)"

definition py_sum :: "pynum list \<Rightarrow> pynum" where
  "py_sum xs = sum_int 0 xs"

text \<open>\<open>x / n\<close> for a number \<open>x\<close> and a positive \<open>int\<close> \<open>n\<close>: the quotient of two integers is
  rounded once, a float is divided by the converted integer.\<close>

definition truediv :: "pynum \<Rightarrow> nat \<Rightarrow> rat" where
  "truediv x n = (case x of PyInt i \<Rightarrow> fl (of_int i / of_nat n)
                          | PyFloat r \<Rightarrow> fdiv r (fl (of_nat n)))"

section \<open>analysis.py: VisaScorer\<close>

record VisaScorer =
  points :: rat
  max_possible :: rat
  evidence :: "(string \<times> string list) list"
  categories_scored :: "string set"
  response_quality :: "pynum list"
  evasiveness :: int
  contradictions :: "(string \<times> string \<times> string) list"
  claims :: "string \<rightharpoonup> string"
  fraud_flags :: "string list"

text \<open>The dictionary \<open>self.weights\<close> is set by \<open>reset\<close> and never written again; its
  values are the doubles nearest to the decimal literals. \<open>weights_get cat\<close> is
  \<open>self.weights.get(cat, 1.0)\<close>.\<close>

definition weights :: "(string \<times> rat) list" where
  "weights = [(''ties'', fl (3/2)), (''funds'', fl (6/5)), (''academics'', fl 1),
              (''intent'', fl (13/10)), (''purpose'', fl (7/5))]"

definition weights_get :: "string \<Rightarrow> rat" where
  "weights_get cat = (case map_of weights cat of Some w \<Rightarrow> w | None \<Rightarrow> 1)"

definition reset :: VisaScorer where
  "reset = \<lparr> points = 0, max_possible = 0,
             evidence = [(''ties'', []), (''funds'', []), (''academics'', []), (''intent'', [])],
             categories_scored = {}, response_quality = [], evasiveness = 0,
             contradictions = [], claims = Map.empty, fraud_flags = [] \<rparr>"

text \<open>The keyword table \<open>kw\<close> of \<open>update\<close>; \<open>kw_get cat\<close> is \<open>kw.get(cat, [])\<close>.\<close>

definition kw :: "(string \<times> string list) list" where
  "kw = [(''ties'', [''family'', ''parents'', ''spouse'', ''children'', ''property'', ''house'',
                     ''land'', ''job'', ''return'', ''home'']),
         (''funds'', [''sponsor'', ''father'', ''mother'', ''bank'', ''loan'', ''savings'',
                      ''salary'', ''tuition'', ''fees'', ''rs'', ''usd'']),
         (''academics'', [''gpa'', ''grade'', ''research'', ''project'', ''course'', ''professor'',
                          ''university'', ''computer science'', ''biology'']),
         (''intent'', [''return'', ''temporary'', ''after graduation'', ''career'', ''plan'',
                       ''goal'', ''role'']),
         (''purpose'', [''tourism'', ''visit'', ''conference'', ''meeting'', ''business'',
                        ''medical'', ''sightseeing'', ''grand canyon'', ''disney''])]"

definition kw_get :: "string \<Rightarrow> string list" where
  "kw_get cat = (case map_of kw cat of Some ks \<Rightarrow> ks | None \<Rightarrow> [])"

text \<open>The flag \<open>matched\<close> of \<open>update\<close>, for the category and the lowercased text.\<close>

definition matched :: "string \<Rightarrow> string \<Rightarrow> bool" where
  "matched cat t =
     (if cat = ''funds'' \<and> list_ex is_digit t then True
      else list_ex (\<lambda>k. contains k t) (kw_get cat))"

text \<open>The local function \<open>set_claim\<close> of \<open>_track_claims\<close>: \<open>prev\<close> is
  \<open>self.claims.get(key)\<close>, and the test \<open>prev and prev != val\<close> needs a stored
  string that is not empty.\<close>

definition set_claim :: "string \<Rightarrow> string \<Rightarrow> VisaScorer \<Rightarrow> VisaScorer" where
  "set_claim key val s =
     (let s1 = (case claims s key of
                  None \<Rightarrow> s
                | Some prev \<Rightarrow>
                    if prev \<noteq> [] \<and> prev \<noteq> val
                    then s\<lparr>contradictions := contradictions s @ [(key, prev, val)]\<rparr>
                    else s)
      in s1\<lparr>claims := (claims s1)(key \<mapsto> val)\<rparr>)"

definition track_claims :: "string \<Rightarrow> VisaScorer \<Rightarrow> VisaScorer" where
  "track_claims t s =
     (let s1 = (if list_ex (\<lambda>w. contains w t)
                     [''father'', ''mother'', ''parents'', ''self'', ''scholarship'', ''loan'']
                then set_claim ''sponsor'' ''mentioned'' s else s);
          s2 = (if list_ex (\<lambda>w. contains w t)
                     [''wisconsin'', ''green bay'', ''uwgb'', ''university'', ''college'']
                then set_claim ''university'' ''mentioned'' s1 else s1)
      in if list_ex (\<lambda>w. contains w t)
              [''computer science'', ''cs'', ''biology'', ''engineering'', ''business'', ''it'']
         then set_claim ''major'' ''mentioned'' s2 else s2)"

text \<open>The end of \<open>update\<close>, from the evasive phrases on; \<open>t\<close> is the lowercased text.\<close>

definition update_tail :: "string \<Rightarrow> VisaScorer \<Rightarrow> VisaScorer" where
  "update_tail t s =
     (let s1 = (if list_ex (\<lambda>p. contains p t) [''don't know'', ''not sure'', ''maybe'', ''can't say'']
                then s\<lparr>evasiveness := evasiveness s + 1\<rparr> else s);
          s2 = track_claims t s1
      in if contains ''fake'' t \<or> contains ''arranged'' t
         then s2\<lparr>fraud_flags := fraud_flags s2 @ [''Possible misrepresentation language'']\<rparr>
         else s2)"

text \<open>\<open>min(10, x)\<close> for a float \<open>x\<close>: the float when it is less than 10, else the
  \<open>int\<close> 10.\<close>

definition min_ten :: "rat \<Rightarrow> pynum" where
  "min_ten x = (if x < 10 then PyFloat x else PyInt 10)"

text \<open>\<open>update(cat, base_points, text)\<close>. The object is mutated in place, so a call that
  raises leaves the fields it has already written: the result is the exception, if any,
  and the state of the scorer after the call. \<open>self.evidence[cat]\<close> raises
  \<open>KeyError\<close> for a category that is not a key of \<open>evidence\<close>.\<close>

definition update :: "string \<Rightarrow> int \<Rightarrow> string \<Rightarrow> VisaScorer \<Rightarrow> pyerror option \<times> VisaScorer" where
  "update cat base_points text s =
     (if text = [] then (None, s)
      else
        let w = weights_get cat;
            pts = fmul (fl (of_int (max 0 (min 3 base_points)))) w;
            s1 = s\<lparr>max_possible := fadd (max_possible s) (fmul 3 w)\<rparr>;
            t = str_lower text
        in if matched cat t then
             (let s2 = s1\<lparr>points := fadd (points s1) pts\<rparr>
              in case map_of (evidence s2) cat of
                   None \<Rightarrow> (Some (KeyError cat), s2)
                 | Some ev \<Rightarrow>
                     (None, update_tail t
                        (s2\<lparr>evidence := map (\<lambda>(k, v). if k = cat then (k, v @ [text]) else (k, v))
                                            (evidence s2),
                            categories_scored := insert cat (categories_scored s2),
                            response_quality := response_quality s2 @
                               [min_ten (truediv (PyInt (int (length (split_ws t)))) 4)]\<rparr>)))
           else (None, update_tail t (s1\<lparr>response_quality := response_quality s1 @ [PyInt 4]\<rparr>)))"

text \<open>\<open>score()\<close>. The penalty is an \<open>int\<close>, converted where it is subtracted from the
  float \<open>base\<close>.\<close>

definition score :: "VisaScorer \<Rightarrow> int" where
  "score s =
     (if max_possible s = 0 then 0
      else
        let base = fmul 100 (fdiv (points s) (max_possible s));
            penalty = evasiveness s * 3 + int (length (contradictions s)) * 8
                      + int (card (set (map fst (evidence s)) - categories_scored s)) * 8;
            quality = fsub (truediv (py_sum (response_quality s))
                                    (max 1 (length (response_quality s)))) 5;
            final = fadd (fsub base (fl (of_int penalty))) (fmul quality 2)
        in max 0 (min 100 (py_round final)))"

text \<open>A sequence of \<open>update\<close> calls on one scorer; a caller that catches the
  \<open>KeyError\<close> of a call goes on with the object as the call left it.\<close>

fun updates :: "(string \<times> int \<times> string) list \<Rightarrow> VisaScorer \<Rightarrow> VisaScorer" where
  "updates [] s = s"
| "updates ((cat, base_points, text) # cs) s = updates cs (snd (update cat base_points text s))"

section \<open>analysis.py: AdministrativeProcessingTracker\<close>

record AdministrativeProcessingTracker =
  financial_triggers :: int
  academic_triggers :: int
  consistency_triggers :: int
  credibility_triggers :: int
  ap_threshold :: int

text \<open>\<open>__init__\<close>.\<close>

definition tracker_init :: AdministrativeProcessingTracker where
  "tracker_init = \<lparr> financial_triggers = 0, academic_triggers = 0, consistency_triggers = 0,
                      credibility_triggers = 0, ap_threshold = 2 \<rparr>"

text \<open>The keys that \<open>analyze_response\<close> reads of the dictionary \<open>analysis\<close>; a key that
  is absent is \<open>None\<close>.\<close>

record analysis_dict =
  specificity_score :: "rat option"
  stress_level :: "rat option"
  consistency_flags :: "string list option"

text \<open>\<open>s.count(sub)\<close>: the occurrences of \<open>sub\<close> in \<open>s\<close> that do not overlap, from the
  left.\<close>

function count_sub :: "string \<Rightarrow> string \<Rightarrow> nat" where
  "count_sub sub s =
     (if sub = [] then length s + 1
      else if s = [] then 0
      else if startswith s sub then 1 + count_sub sub (drop (length sub) s)
      else count_sub sub (tl s))"
  by pat_completeness auto
termination
  by (relation "measure (\<lambda>(sub, s). length s)") auto

declare count_sub.simps [simp del]

definition financial_uncertainty :: "string \<Rightarrow> bool" where
  "financial_uncertainty text =
     (let vague_financial = list_ex (\<lambda>phrase. contains phrase (str_lower text))
            [''not sure'', ''don't know'', ''maybe'', ''probably'', ''i think'',
             ''my father will arrange'', ''we have enough'', ''sufficient funds''];
          no_specifics = (\<not> list_ex (\<lambda>word. contains word (str_lower text))
            [''salary'', ''savings'', ''bank'', ''amount'', ''figure''])
      in vague_financial \<or> no_specifics)"

definition academic_issues :: "string \<Rightarrow> analysis_dict \<Rightarrow> bool" where
  "academic_issues text analysis =
     (let weak_preparation =
            ((case specificity_score analysis of Some x \<Rightarrow> x | None \<Rightarrow> 0) < 3 / 10);
          vague_motivation = (length (split_ws text) < 8)
      in weak_preparation \<or> vague_motivation)"

definition credibility_concerns :: "string \<Rightarrow> analysis_dict \<Rightarrow> bool" where
  "credibility_concerns text analysis =
     (let high_stress = ((case stress_level analysis of Some x \<Rightarrow> x | None \<Rightarrow> 0) > 7 / 10);
          multiple_fillers =
            (count_sub ''um'' (str_lower text) + count_sub ''uh'' (str_lower text) > 3)
      in high_stress \<or> multiple_fillers)"

text \<open>The method \<open>_should_escalate_to_ap\<close>.\<close>

definition underscore_should_escalate_to_ap :: "AdministrativeProcessingTracker \<Rightarrow> bool" where
  "underscore_should_escalate_to_ap tr =
     (let total = financial_triggers tr + academic_triggers tr
                  + consistency_triggers tr + credibility_triggers tr
      in total \<ge> ap_threshold tr)"

text \<open>\<open>sep.join(xs)\<close>.\<close>

fun join :: "string \<Rightarrow> string list \<Rightarrow> string" where
  "join sep [] = []"
| "join sep [x] = x"
| "join sep (x # y # ys) = x @ sep @ join sep (y # ys)"

record ap_result =
  triggers :: "string list"
  total_triggers :: int
  should_escalate_ap :: bool
  ap_reason :: "string option"

text \<open>\<open>analyze_response(user_text, analysis, turn)\<close>: the tracker after the call and the
  dictionary it returns. The argument \<open>turn\<close> is not read.\<close>

definition analyze_response ::
  "string \<Rightarrow> analysis_dict \<Rightarrow> int \<Rightarrow> AdministrativeProcessingTracker
     \<Rightarrow> AdministrativeProcessingTracker \<times> ap_result" where
  "analyze_response user_text analysis turn_no tr =
     (let (tr1, tg1) = (if financial_uncertainty user_text
                        then (tr\<lparr>financial_triggers := financial_triggers tr + 1\<rparr>,
                              [''financial verification needed''])
                        else (tr, []));
          (tr2, tg2) = (if academic_issues user_text analysis
                        then (tr1\<lparr>academic_triggers := academic_triggers tr1 + 1\<rparr>,
                              tg1 @ [''academic background verification''])
                        else (tr1, tg1));
          (tr3, tg3) = (if (case consistency_flags analysis of Some flags \<Rightarrow> flags \<noteq> [] | None \<Rightarrow> False)
                        then (tr2\<lparr>consistency_triggers := consistency_triggers tr2 + 1\<rparr>,
                              tg2 @ [''inconsistent information''])
                        else (tr2, tg2));
          (tr4, tg4) = (if credibility_concerns user_text analysis
                        then (tr3\<lparr>credibility_triggers := credibility_triggers tr3 + 1\<rparr>,
                              tg3 @ [''credibility concerns''])
                        else (tr3, tg3))
      in (tr4, \<lparr> triggers = tg4,
                 total_triggers = financial_triggers tr4 + academic_triggers tr4
                                  + consistency_triggers tr4 + credibility_triggers tr4,
                 should_escalate_ap = underscore_should_escalate_to_ap tr4,
                 ap_reason = (if tg4 \<noteq> [] then Some (join '' & '' tg4) else None) \<rparr>))"

definition get_ap_reason :: "AdministrativeProcessingTracker \<Rightarrow> string" where
  "get_ap_reason tr =
     (let r1 = (if financial_triggers tr \<ge> 2 then [''financial verification''] else []);
          r2 = (if academic_triggers tr \<ge> 2 then r1 @ [''academic background review''] else r1);
          r3 = (if consistency_triggers tr \<ge> 2 then r2 @ [''information consistency check'']
                else r2);
          reasons = (if credibility_triggers tr \<ge> 2
                     then r3 @ [''applicant credibility assessment''] else r3)
      in if reasons \<noteq> [] then join '' & '' reasons else ''standard administrative review'')"

text \<open>A sequence of \<open>analyze_response\<close> calls on one tracker.\<close>

fun analyze_all ::
  "(string \<times> analysis_dict \<times> int) list \<Rightarrow> AdministrativeProcessingTracker
     \<Rightarrow> AdministrativeProcessingTracker" where
  "analyze_all [] tr = tr"
| "analyze_all ((user_text, analysis, turn_no) # cs) tr =
     analyze_all cs (fst (analyze_response user_text analysis turn_no tr))"

text \<open>The zero-argument methods of the class that return a truth value, by attribute name.
  The class defines \<open>__init__\<close>, \<open>analyze_response\<close>, \<open>_financial_uncertainty\<close>,
  \<open>_academic_issues\<close>, \<open>_credibility_concerns\<close>, \<open>_should_escalate_to_ap\<close> and
  \<open>get_ap_reason\<close>, its instances the five fields, and there is no \<open>__getattr__\<close>:
  looking up any other name raises \<open>AttributeError\<close>.\<close>

definition tracker_predicates :: "(string \<times> (AdministrativeProcessingTracker \<Rightarrow> bool)) list" where
  "tracker_predicates = [(''_should_escalate_to_ap'', underscore_should_escalate_to_ap)]"

definition call_tracker_predicate ::
  "string \<Rightarrow> AdministrativeProcessingTracker \<Rightarrow> pyerror + bool" where
  "call_tracker_predicate name tr =
     (case map_of tracker_predicates name of
        None \<Rightarrow> Inl (AttributeError name)
      | Some m \<Rightarrow> Inr (m tr))"

section \<open>analysis.py: AnswerAnalysis\<close>

text \<open>The attributes of an \<open>AnswerAnalysis\<close> that the session and the vagueness flag
  read. (The attributes \<open>numbers\<close>, \<open>primary\<close> and \<open>specificity_score\<close>, computed
  by further regular expressions, and the other hints are read by nothing modelled here.)\<close>

record AnswerAnalysis =
  raw :: string
  lower :: string
  tokens :: "string list"
  token_set :: "string set"
  length_tokens :: nat
  vague :: bool
  bio_hint :: bool
  uncertainty_detected :: bool

definition UNCERTAINTY :: "string list" where
  "UNCERTAINTY = [''maybe'', ''not sure'', ''i think'', ''probably'', ''perhaps'', ''i guess'',
                  ''don't know'']"

definition AnswerAnalysis :: "string \<Rightarrow> AnswerAnalysis" where
  "AnswerAnalysis text =
     (let lo = str_lower text;
          toks = findall_alnum lo;
          tset = set toks;
          len = length toks
      in \<lparr> raw = text, lower = lo, tokens = toks, token_set = tset, length_tokens = len,
           vague = (len < 4 \<or> list_ex (\<lambda>w. w \<in> tset) UNCERTAINTY),
           bio_hint = list_ex (\<lambda>w. w \<in> tset) [''biology'', ''biological'', ''life'', ''zoology''],
           uncertainty_detected = list_ex (\<lambda>w. contains w lo) UNCERTAINTY \<rparr>)"

section \<open>interview.py: InterviewState\<close>

record InterviewState =
  turn :: int
  asked_categories :: "string list"
  category_set :: "string set"
  questions_history :: "string list"
  darwin_check_used :: bool

definition InterviewState_init :: InterviewState where
  "InterviewState_init = \<lparr> turn = 0, asked_categories = [], category_set = {},
                            questions_history = [], darwin_check_used = False \<rparr>"

text \<open>\<open>_norm\<close>: lowercase, every character outside \<open>[a-z0-9\s]\<close> replaced by a blank,
  white space collapsed.\<close>

definition norm_q :: "string \<Rightarrow> string" where
  "norm_q s =
     (let s1 = str_lower s;
          s2 = map (\<lambda>c. if is_alnum_lower c \<or> is_space c then c else CHR '' '') s1
      in join '' '' (split_ws s2))"


text \<open>\<open>append\<close> on a \<open>deque(maxlen=25)\<close>: a full buffer drops its oldest entry.\<close>

definition deque_append :: "string \<Rightarrow> string list \<Rightarrow> string list" where
  "deque_append x xs = (if length xs \<ge> 25 then tl xs @ [x] else xs @ [x])"

text \<open>\<open>record(q, cat_hint)\<close>; an empty \<open>q\<close> and an absent or empty hint are skipped.\<close>

definition record_q :: "string \<Rightarrow> string option \<Rightarrow> InterviewState \<Rightarrow> InterviewState" where
  "record_q qu cat_hint st =
     (let st1 = (if qu \<noteq> [] then st\<lparr>questions_history := deque_append (norm_q qu) (questions_history st)\<rparr>
                 else st)
      in case cat_hint of
           None \<Rightarrow> st1
         | Some h \<Rightarrow> if h \<noteq> []
                     then st1\<lparr>asked_categories := asked_categories st1 @ [h],
                              category_set := insert h (category_set st1)\<rparr>
                     else st1)"


section \<open>interview.py: parse_ai_with_ap\<close>

text \<open>\<open>s.splitlines()\<close>: a line ends at a line feed, a carriage return (with the line
  feed that follows it, if any), a vertical tab, a form feed, one of the separators 0x1C
  to 0x1E or the next-line control 0x85; the text after the last line end is a line when
  it is not empty.\<close>

definition is_linebreak :: "char \<Rightarrow> bool" where
  "is_linebreak c = (c \<in> set [CHR 0x0A, CHR 0x0B, CHR 0x0C, CHR 0x0D, CHR 0x1C, CHR 0x1D, CHR 0x1E,
                               CHR 0x85])"

fun splitlines_acc :: "string \<Rightarrow> string \<Rightarrow> string list" where
  "splitlines_acc acc [] = (if acc = [] then [] else [rev acc])"
| "splitlines_acc acc [c] = (if is_linebreak c then [rev acc] else [rev (c # acc)])"
| "splitlines_acc acc (c # d # cs) =
     (if c = CHR 0x0D \<and> d = CHR 0x0A then rev acc # splitlines_acc [] cs
      else if is_linebreak c then rev acc # splitlines_acc [] (d # cs)
      else splitlines_acc (c # acc) (d # cs))"

definition splitlines :: "string \<Rightarrow> string list" where
  "splitlines s = splitlines_acc [] s"

text \<open>\<open>body.split(":", 1)\<close> unpacked into two names: the text before and after the first
  colon, or \<open>None\<close> where the unpacking raises \<open>ValueError\<close> for want of a colon.\<close>

fun split_colon :: "string \<Rightarrow> (string \<times> string) option" where
  "split_colon [] = None"
| "split_colon (c # cs) =
     (if c = CHR '':'' then Some ([], cs)
      else (case split_colon cs of None \<Rightarrow> None | Some (a, b) \<Rightarrow> Some (c # a, b)))"

text \<open>\<open>int(s)\<close> on a stripped string: an optional sign, then decimal digits, single
  underscores allowed between digits; \<open>None\<close> where \<open>int\<close> raises \<open>ValueError\<close>,
  which it also does beyond 4300 digits (the default limit of CPython from 3.11 on).\<close>

fun int_body :: "string \<Rightarrow> bool" where
  "int_body [] = False"
| "int_body [c] = is_decimal c"
| "int_body (c # d # cs) =
     (is_decimal c \<and> (if d = CHR ''_'' then int_body cs else int_body (d # cs)))"

definition digit_value :: "char \<Rightarrow> int" where
  "digit_value c = (case map_of (zip ascii_digits [0, 1, 2, 3, 4, 5, 6, 7, 8, 9]) c of
                      Some v \<Rightarrow> v | None \<Rightarrow> 0)"

definition digits_value :: "string \<Rightarrow> int" where
  "digits_value ds = foldl (\<lambda>n c. 10 * n + digit_value c) 0 ds"

definition py_int :: "string \<Rightarrow> int option" where
  "py_int s =
     (let (neg, body) = (case s of
                           [] \<Rightarrow> (False, [])
                         | c # cs \<Rightarrow> if c = CHR ''-'' then (True, cs)
                                     else if c = CHR ''+'' then (False, cs)
                                     else (False, s));
          ds = filter is_decimal body
      in if int_body body \<and> length ds \<le> 4300
         then Some (if neg then - digits_value ds else digits_value ds)
         else None)"

text \<open>The local variables of \<open>parse_ai_with_ap\<close> that its loop over the lines writes.\<close>

record parse_vars =
  v_q :: "string option"
  v_decision :: "(string \<times> string) option"
  v_cat :: string
  v_pts :: int
  v_score_line :: "string option"
  v_dec_line :: "string option"

definition parse_vars_init :: parse_vars where
  "parse_vars_init = \<lparr> v_q = None, v_decision = None, v_cat = ''intent'', v_pts = 1,
                        v_score_line = None, v_dec_line = None \<rparr>"

text \<open>The dictionary \<open>m\<close> of category synonyms; \<open>m_get c\<close> is \<open>m.get(c, c)\<close>.\<close>

definition m_get :: "string \<Rightarrow> string" where
  "m_get c = (case map_of [(''education'', ''academics''), (''financial'', ''funds''),
                           (''finance'', ''funds''), (''family'', ''ties''),
                           (''purpose'', ''intent'')] c of
                Some v \<Rightarrow> v | None \<Rightarrow> c)"

text \<open>The body of the loop for one line. In the \<open>SCORE\<close> branch the \<open>try\<close> block is left
  at the first exception: without a colon nothing is assigned, and with points that are
  no integer the category is already assigned.\<close>

definition parse_line :: "string \<Rightarrow> parse_vars \<Rightarrow> parse_vars" where
  "parse_line line pv =
     (let t = strip line
      in if t = [] then pv
         else
           let u = str_upper t
           in if startswith u (literal ''QUESTION:'') then pv\<lparr>v_q := Some (strip (drop 9 t))\<rparr>
              else if startswith u (literal ''SCORE:'') then
                (let pv1 = pv\<lparr>v_score_line := Some t\<rparr>;
                     body = strip (drop 6 t)
                 in case split_colon body of
                      None \<Rightarrow> pv1
                    | Some (c, p) \<Rightarrow>
                        (let pv2 = pv1\<lparr>v_cat := m_get (str_lower (strip c))\<rparr>
                         in case py_int (strip p) of
                              None \<Rightarrow> pv2
                            | Some n \<Rightarrow> pv2\<lparr>v_pts := n\<rparr>))
              else if startswith u (literal ''DECISION:'') then
                (let pv1 = pv\<lparr>v_dec_line := Some t\<rparr>;
                     body = strip (drop 9 t)
                 in if contains '':'' body
                    then (case split_colon body of
                            None \<Rightarrow> pv1
                          | Some (typ, reason) \<Rightarrow> pv1\<lparr>v_decision := Some (strip typ, strip reason)\<rparr>)
                    else pv1\<lparr>v_decision := Some (strip body, ''Based on interview responses'')\<rparr>)
              else pv)"

definition parse_lines :: "string \<Rightarrow> parse_vars" where
  "parse_lines ai_text = foldl (\<lambda>pv line. parse_line line pv) parse_vars_init (splitlines ai_text)"

text \<open>The sanitisation of the question at the end of \<open>parse_ai_with_ap\<close>.\<close>

definition sanitize_q :: "string option \<Rightarrow> string option" where
  "sanitize_q qo =
     (case qo of
        None \<Rightarrow> None
      | Some qu \<Rightarrow>
          if qu = [] then Some qu
          else if contains ''ds-160'' (str_lower qu) then Some qu
          else if list_ex (\<lambda>x. contains x (str_lower qu)) [''show me'', ''provide document'']
          then Some ''Can you explain that in more detail?''
          else Some qu)"

text \<open>The tuple that \<open>parse_ai_with_ap\<close> returns.\<close>

record parse_result =
  r_q :: "string option"
  r_decision :: "(string \<times> string) option"
  r_done :: bool
  r_score_line :: "string option"
  r_dec_line :: "string option"

definition scored_categories :: "string list" where
  "scored_categories = [''academics'', ''funds'', ''ties'', ''intent'', ''purpose'']"

text \<open>\<open>parse_ai_with_ap(ai_text, user_text, scorer)\<close>: the exception or the returned
  tuple, and the scorer after the call. The scorer is updated whenever the category is a
  scored one, whether or not the reply holds a decision.\<close>

definition parse_ai_with_ap ::
  "string option \<Rightarrow> string \<Rightarrow> VisaScorer \<Rightarrow> (pyerror + parse_result) \<times> VisaScorer" where
  "parse_ai_with_ap ai_text user_text sc =
     (case ai_text of
        None \<Rightarrow> (Inr \<lparr> r_q = None, r_decision = None, r_done = False,
                       r_score_line = None, r_dec_line = None \<rparr>, sc)
      | Some a \<Rightarrow>
          if a = [] then (Inr \<lparr> r_q = None, r_decision = None, r_done = False,
                                r_score_line = None, r_dec_line = None \<rparr>, sc)
          else
            let pv = parse_lines a;
                (exc, sc1) = (if v_cat pv \<in> set scored_categories
                              then update (v_cat pv) (v_pts pv) user_text sc
                              else (None, sc))
            in case exc of
                 Some e \<Rightarrow> (Inl e, sc1)
               | None \<Rightarrow> (Inr \<lparr> r_q = sanitize_q (v_q pv), r_decision = v_decision pv,
                                 r_done = (v_decision pv \<noteq> None),
                                 r_score_line = v_score_line pv, r_dec_line = v_dec_line pv \<rparr>,
                           sc1))"

section \<open>session.py: InterviewSession\<close>

text \<open>The state of a session that the controller itself reads and writes. The message
  history only feeds the language-model collaborator, whose replies are inputs of this
  model, so it is left out; so are the collaborators themselves.\<close>

record InterviewSession =
  ap_tracker :: AdministrativeProcessingTracker
  scorer :: VisaScorer
  istate :: InterviewState
  transcript :: "string list"

definition InterviewSession_init :: InterviewSession where
  "InterviewSession_init = \<lparr> ap_tracker = tracker_init, scorer = reset,
                              istate = InterviewState_init, transcript = [] \<rparr>"

text \<open>Python's \<open>not x\<close> for a result that is a string or \<open>None\<close>, and the string of a
  result.\<close>

definition falsy :: "string option \<Rightarrow> bool" where
  "falsy x = (case x of None \<Rightarrow> True | Some s \<Rightarrow> s = [])"

definition text_of :: "string option \<Rightarrow> string" where
  "text_of x = (case x of None \<Rightarrow> [] | Some s \<Rightarrow> s)"

definition speak_and_log :: "string \<Rightarrow> InterviewSession \<Rightarrow> InterviewSession" where
  "speak_and_log text s = s\<lparr>transcript := transcript s @ [''OFFICER: '' @ text]\<rparr>"

definition handle_decision :: "string \<times> string \<Rightarrow> InterviewSession \<Rightarrow> InterviewSession" where
  "handle_decision d s =
     (case d of (decision_type, reason) \<Rightarrow>
        speak_and_log (''Decision: '' @ decision_type @ ''. '' @ reason) s)"

definition clarification_prompt :: string where
  "clarification_prompt = ''I need you to answer the question clearly.''"

definition no_answer_decision :: "string \<times> string" where
  "no_answer_decision = (''DENIED'', ''Unable to provide clear responses during interview.'')"

definition fallback_question :: string where
  "fallback_question =
     ''Let me ask you another question. What confirms you'll return home after studies?''"

text \<open>The loop \<open>for turn in range(self.cfg.max_turns)\<close> of \<open>run\<close>, from iteration \<open>n\<close>
  with \<open>k\<close> iterations left. \<open>stt n\<close> and \<open>llm n\<close> are what the transcriber and the
  language model return in iteration \<open>n\<close>, \<open>major\<close> is the major of the DS-160 data.
  The result is the exception that ends the loop or the value of \<open>decision\<close> after it, and
  the session state. The tracker \<open>ap_tracker\<close> is not called anywhere in the loop.\<close>

fun turn_loop ::
  "string \<Rightarrow> (nat \<Rightarrow> string option) \<Rightarrow> (nat \<Rightarrow> string option) \<Rightarrow> nat \<Rightarrow> nat
     \<Rightarrow> InterviewSession \<Rightarrow> (pyerror + (string \<times> string) option) \<times> InterviewSession" where
  "turn_loop major stt llm n 0 s = (Inr None, s)"
| "turn_loop major stt llm n (Suc k) s =
     (if falsy (stt n) then
        (if n < 2 then turn_loop major stt llm (Suc n) k (speak_and_log clarification_prompt s)
         else (Inr (Some no_answer_decision), s))
      else
        let user_text = text_of (stt n);
            s1 = s\<lparr>transcript := transcript s @ [''APPLICANT: '' @ user_text]\<rparr>;
            analysis = AnswerAnalysis user_text;
            s2 = (if \<not> darwin_check_used (istate s1)
                     \<and> (bio_hint analysis \<or> contains ''biology'' (str_lower major))
                  then s1\<lparr>istate := (istate s1)\<lparr>darwin_check_used := True\<rparr>\<rparr>
                  else s1)
        in if falsy (llm n) then
             turn_loop major stt llm (Suc n) k (speak_and_log fallback_question s2)
           else
             (case parse_ai_with_ap (llm n) user_text (scorer s2) of
                (Inl e, sc) \<Rightarrow> (Inl e, s2\<lparr>scorer := sc\<rparr>)
              | (Inr r, sc) \<Rightarrow>
                  let s3 = s2\<lparr>scorer := sc\<rparr>
                  in if r_done r then
                       (case r_decision r of
                          Some d \<Rightarrow> (Inr (Some d), handle_decision d s3)
                        | None \<Rightarrow> (Inr None, s3))
                     else
                       let s4 = (if \<not> falsy (r_q r) then speak_and_log (text_of (r_q r)) s3
                                 else s3);
                           s5 = s4\<lparr>istate := record_q (text_of (r_q r)) None
                                                 ((istate s4)\<lparr>turn := turn (istate s4) + 1\<rparr>)\<rparr>
                       in turn_loop major stt llm (Suc n) k s5))"

text \<open>\<open>_make_final_decision\<close>. The call \<open>self.ap_tracker.should_escalate_to_ap()\<close> looks
  the name up on the tracker.\<close>

definition make_final_decision :: "InterviewSession \<Rightarrow> pyerror + (string \<times> string)" where
  "make_final_decision s =
     (let final_score = score (scorer s)
      in case call_tracker_predicate ''should_escalate_to_ap'' (ap_tracker s) of
           Inl e \<Rightarrow> Inl e
         | Inr escalate \<Rightarrow>
             if escalate then
               Inr (''ADMINISTRATIVE PROCESSING'',
                    ''Case requires verification: '' @ get_ap_reason (ap_tracker s))
             else if final_score \<ge> 70 \<and> fraud_flags (scorer s) = []
                     \<and> contradictions (scorer s) = []
             then Inr (''APPROVED'', ''Credible non-immigrant intent demonstrated.'')
             else
               let r1 = (if contradictions (scorer s) \<noteq> [] then [''inconsistent information'']
                         else []);
                   r2 = (if fraud_flags (scorer s) \<noteq> [] then r1 @ [''credibility concerns'']
                         else r1);
                   reasons = (if final_score < 70 then r2 @ [''insufficient ties demonstration'']
                              else r2);
                   reason_text = (if join ''; '' reasons \<noteq> [] then join ''; '' reasons
                                  else ''insufficient evidence of non-immigrant intent'')
               in Inr (''DENIED'', reason_text @ '' under INA 214(b).''))"

text \<open>\<open>run\<close>, from the opening question on (after the collaborators are initialised and
  the style and embassy are chosen): the opening question is spoken, the loop runs, and
  without a decision the final decision is computed and announced. The result is the
  exception that leaves \<open>run\<close> or the decision that is saved, and the session state.\<close>

definition run ::
  "nat \<Rightarrow> string \<Rightarrow> string \<Rightarrow> (nat \<Rightarrow> string option) \<Rightarrow> (nat \<Rightarrow> string option)
     \<Rightarrow> (pyerror + (string \<times> string)) \<times> InterviewSession" where
  "run max_turns major opening_question stt llm =
     (case turn_loop major stt llm 0 max_turns
             (speak_and_log opening_question InterviewSession_init) of
        (Inl e, s) \<Rightarrow> (Inl e, s)
      | (Inr (Some d), s) \<Rightarrow> (Inr d, s)
      | (Inr None, s) \<Rightarrow>
          (case make_final_decision s of
             Inl e \<Rightarrow> (Inl e, s)
           | Inr d \<Rightarrow> (Inr d, handle_decision d s)))"

text \<open>A collaborator that returns the entries of a list in turn, and nothing after them.\<close>

definition replies :: "string option list \<Rightarrow> nat \<Rightarrow> string option" where
  "replies xs n = (if n < length xs then xs ! n else None)"

section \<open>The specification's reading of the scorer\<close>

text \<open>The keys of \<open>self.evidence\<close>, as \<open>reset\<close> creates them.\<close>

definition evidence_keys :: "string list" where
  "evidence_keys = [''ties'', ''funds'', ''academics'', ''intent'']"





text \<open>Invariants of the scorer: every stored claim value is the marker, and no
  contradiction is logged; and, while no update has matched, no credit is recorded.\<close>

definition claims_ok :: "VisaScorer \<Rightarrow> bool" where
  "claims_ok s = (contradictions s = [] \<and> ran (claims s) \<subseteq> {''mentioned''})"

definition no_credit :: "VisaScorer \<Rightarrow> bool" where
  "no_credit s = (points s = 0 \<and> categories_scored s = {} \<and> map fst (evidence s) = evidence_keys
                  \<and> set (response_quality s) \<subseteq> {PyInt 4} \<and> 0 \<le> evasiveness s)"

text \<open>A call of \<open>update\<close> is unmatched when the lowercased answer holds no keyword of the
  scored category and, for the category funds, no digit.\<close>

definition unmatched_call :: "string \<times> int \<times> string \<Rightarrow> bool" where
  "unmatched_call c = (case c of (cat, base_points, text) \<Rightarrow> \<not> matched cat (str_lower text))"

section \<open>The specification's reading of replies and questions\<close>




section \<open>The scorer: claims, contradictions and the score\<close>

lemma set_claim_ok: "claims_ok s \<Longrightarrow> claims_ok (set_claim key ''mentioned'' s)"
  by (auto simp: claims_ok_def set_claim_def Let_def ran_def split: option.splits)

lemma track_claims_ok: "claims_ok s \<Longrightarrow> claims_ok (track_claims t s)"
  by (simp add: track_claims_def Let_def set_claim_ok)

lemma claims_ok_upd:
  "claims_ok (s\<lparr>evasiveness := e\<rparr>) = claims_ok s"
  "claims_ok (s\<lparr>fraud_flags := f\<rparr>) = claims_ok s"
  "claims_ok (s\<lparr>max_possible := m\<rparr>) = claims_ok s"
  "claims_ok (s\<lparr>points := p\<rparr>) = claims_ok s"
  "claims_ok (s\<lparr>evidence := ev\<rparr>) = claims_ok s"
  "claims_ok (s\<lparr>categories_scored := cs\<rparr>) = claims_ok s"
  "claims_ok (s\<lparr>response_quality := q\<rparr>) = claims_ok s"
  by (simp_all add: claims_ok_def)

lemma update_tail_ok: "claims_ok s \<Longrightarrow> claims_ok (update_tail t s)"
  by (simp add: update_tail_def Let_def track_claims_ok claims_ok_upd)

lemma update_ok: "claims_ok s \<Longrightarrow> claims_ok (snd (update cat p text s))"
  by (simp add: update_def Let_def update_tail_ok claims_ok_upd split: option.splits)

lemma updates_ok: "claims_ok s \<Longrightarrow> claims_ok (updates calls s)"
  by (induction calls arbitrary: s) (auto simp: update_ok)

lemma reset_ok: "claims_ok reset"
  by (simp add: claims_ok_def reset_def)

text \<open>
  C8. Whatever the categories, points and answer texts of a sequence of \<open>update\<close> calls
  on a fresh scorer, the list of contradictions stays empty: the only value ever stored
  for a claim key is the marker \<open>mentioned\<close>, so \<open>set_claim\<close> never sees a different
  previous value.
\<close>

theorem contradictions_stay_empty: "contradictions (updates calls reset) = []"
  using updates_ok [OF reset_ok, of calls] by (simp add: claims_ok_def)

lemma py_round_le: "x \<le> of_int n \<Longrightarrow> py_round x \<le> n"
proof -
  assume h: "x \<le> of_int n"
  have a: "of_int \<lfloor>x\<rfloor> \<le> x" by simp
  have "\<lfloor>x\<rfloor> \<le> n" using h by (simp add: floor_le_iff)
  then consider "\<lfloor>x\<rfloor> = n" | "\<lfloor>x\<rfloor> + 1 \<le> n" by linarith
  then show ?thesis
  proof cases
    case 1
    then have "x = of_int \<lfloor>x\<rfloor>" using h a by simp
    then have "x - of_int \<lfloor>x\<rfloor> = 0" by simp
    then show ?thesis using 1 by (simp add: py_round_def Let_def)
  next
    case 2
    then show ?thesis by (simp add: py_round_def Let_def)
  qed
qed

lemma py_round_ge: "of_int n \<le> x \<Longrightarrow> n \<le> py_round x"
proof -
  assume "of_int n \<le> x"
  then have "n \<le> \<lfloor>x\<rfloor>" by (simp add: le_floor_iff)
  then show ?thesis by (simp add: py_round_def Let_def)
qed

lemma pow2_pos: "0 < pow2 e"
  by (simp add: pow2_def)

lemma fl_0: "fl 0 = 0"
  by (simp add: fl_def)

lemma fl_nonpos: "x \<le> 0 \<Longrightarrow> fl x \<le> 0"
proof (cases "x = 0")
  case True then show ?thesis by (simp add: fl_def)
next
  case False
  assume x: "x \<le> 0"
  define q where "q = pow2 (max (ilog2 \<bar>x\<bar>) (- 1022) - 52)"
  have q: "0 < q" unfolding q_def by (rule pow2_pos)
  then have "x / q \<le> of_int 0" using x by (simp add: divide_nonpos_pos)
  then have "py_round (x / q) \<le> 0" by (rule py_round_le)
  then have "(of_int (py_round (x / q)) :: rat) \<le> 0" by simp
  then have "of_int (py_round (x / q)) * q \<le> 0" using q by (simp add: mult_nonpos_nonneg)
  then show ?thesis using False by (simp add: fl_def Let_def q_def)
qed

lemma fl_nonneg: "0 \<le> x \<Longrightarrow> 0 \<le> fl x"
proof (cases "x = 0")
  case True then show ?thesis by (simp add: fl_def)
next
  case False
  assume x: "0 \<le> x"
  define q where "q = pow2 (max (ilog2 \<bar>x\<bar>) (- 1022) - 52)"
  have q: "0 < q" unfolding q_def by (rule pow2_pos)
  then have "of_int 0 \<le> x / q" using x by simp
  then have "0 \<le> py_round (x / q)" by (rule py_round_ge)
  then have "(0 :: rat) \<le> of_int (py_round (x / q))" by simp
  then have "0 \<le> of_int (py_round (x / q)) * q" using q by simp
  then show ?thesis using False by (simp add: fl_def Let_def q_def)
qed

lemma fl_4: "fl 4 = 4" by code_simp
lemma fl_m1: "fl (- 1) = - 1" by code_simp
lemma fl_m2: "fl (- 2) = - 2" by code_simp
lemma fl_m5: "fl (- 5) = - 5" by code_simp
lemma fl_m10: "fl (- 10) = - 10" by code_simp

lemma sum_int_fours:
  "set xs \<subseteq> {PyInt 4} \<Longrightarrow> sum_int i xs = PyInt (i + 4 * int (length xs))"
  by (induction xs arbitrary: i) auto

lemma quality_fours:
  assumes "set xs \<subseteq> {PyInt 4}"
  shows "fmul (fsub (truediv (py_sum xs) (max 1 (length xs))) 5) 2 < 0"
proof (cases "xs = []")
  case True
  then show ?thesis
    by (simp add: py_sum_def truediv_def fl_0 fsub_def fmul_def fl_m5 fl_m10)
next
  case False
  then have n: "0 < length xs" by simp
  then have m: "max 1 (length xs) = length xs" by arith
  have d: "(of_int (4 * int (length xs)) :: rat) / of_nat (length xs) = 4" using n by simp
  have "truediv (py_sum xs) (max 1 (length xs)) = fl 4"
    unfolding m py_sum_def truediv_def sum_int_fours [OF assms, of 0] using d by simp
  then show ?thesis by (simp add: fl_4 fsub_def fmul_def fl_m1 fl_m2)
qed








lemma set_claim_frame:
  "points (set_claim k v s) = points s"
  "max_possible (set_claim k v s) = max_possible s"
  "evidence (set_claim k v s) = evidence s"
  "categories_scored (set_claim k v s) = categories_scored s"
  "response_quality (set_claim k v s) = response_quality s"
  "evasiveness (set_claim k v s) = evasiveness s"
  "fraud_flags (set_claim k v s) = fraud_flags s"
  by (simp_all add: set_claim_def Let_def split: option.splits)

lemma track_claims_frame:
  "points (track_claims t s) = points s"
  "max_possible (track_claims t s) = max_possible s"
  "evidence (track_claims t s) = evidence s"
  "categories_scored (track_claims t s) = categories_scored s"
  "response_quality (track_claims t s) = response_quality s"
  "evasiveness (track_claims t s) = evasiveness s"
  "fraud_flags (track_claims t s) = fraud_flags s"
  by (simp_all add: track_claims_def Let_def set_claim_frame)

lemma update_tail_frame:
  "points (update_tail t s) = points s"
  "max_possible (update_tail t s) = max_possible s"
  "evidence (update_tail t s) = evidence s"
  "categories_scored (update_tail t s) = categories_scored s"
  "response_quality (update_tail t s) = response_quality s"
  by (simp_all add: update_tail_def Let_def track_claims_frame)

lemma update_tail_evasiveness: "evasiveness s \<le> evasiveness (update_tail t s)"
  by (simp add: update_tail_def Let_def track_claims_frame)

lemma no_credit_reset: "no_credit reset"
  by (simp add: no_credit_def reset_def evidence_keys_def)

lemma no_credit_update:
  assumes "no_credit s" and "\<not> matched cat (str_lower text)"
  shows "no_credit (snd (update cat p text s))"
proof (cases "text = []")
  case True
  then show ?thesis using assms by (simp add: update_def)
next
  case False
  have "0 \<le> evasiveness s" using assms(1) by (simp add: no_credit_def)
  also have "\<dots> \<le> evasiveness (update_tail (str_lower text)
       (s\<lparr>max_possible := fadd (max_possible s) (fmul 3 (weights_get cat)),
           response_quality := response_quality s @ [PyInt 4]\<rparr>))"
    using update_tail_evasiveness
      [of "s\<lparr>max_possible := fadd (max_possible s) (fmul 3 (weights_get cat)),
              response_quality := response_quality s @ [PyInt 4]\<rparr>" "str_lower text"] by simp
  finally show ?thesis using assms False
    by (simp add: update_def Let_def no_credit_def update_tail_frame)
qed

lemma no_credit_updates:
  "no_credit s \<Longrightarrow> list_all unmatched_call calls \<Longrightarrow> no_credit (updates calls s)"
  by (induction calls arbitrary: s) (auto simp: no_credit_update unmatched_call_def)

lemma no_credit_score:
  assumes "no_credit s" shows "score s = 0"
proof (cases "max_possible s = 0")
  case True then show ?thesis by (simp add: score_def)
next
  case False
  have p: "points s = 0" using assms by (simp add: no_credit_def)
  have q: "set (response_quality s) \<subseteq> {PyInt 4}" using assms by (simp add: no_credit_def)
  define P where "P = evasiveness s * 3 + int (length (contradictions s)) * 8
             + int (card (set (map fst (evidence s)) - categories_scored s)) * 8"
  have "0 \<le> evasiveness s" using assms by (simp add: no_credit_def)
  then have "0 \<le> P" unfolding P_def by simp
  then have "0 \<le> fl (of_int P)" by (simp add: fl_nonneg)
  moreover have "fmul 100 (fdiv (points s) (max_possible s)) = 0"
    using p by (simp add: fdiv_def fmul_def fl_0)
  ultimately have a: "fsub (fmul 100 (fdiv (points s) (max_possible s))) (fl (of_int P)) \<le> 0"
    by (simp add: fsub_def fl_nonpos)
  have b: "fmul (fsub (truediv (py_sum (response_quality s))
                     (max 1 (length (response_quality s)))) 5) 2 < 0"
    using q by (rule quality_fours)
  define F where "F = fadd (fsub (fmul 100 (fdiv (points s) (max_possible s))) (fl (of_int P)))
     (fmul (fsub (truediv (py_sum (response_quality s))
                     (max 1 (length (response_quality s)))) 5) 2)"
  have "F \<le> 0" unfolding F_def fadd_def using a b by (intro fl_nonpos) simp
  then have "py_round F \<le> 0" using py_round_le [of F 0] by simp
  moreover have "score s = max 0 (min 100 (py_round F))"
    using False unfolding score_def Let_def F_def P_def by simp
  ultimately show ?thesis by simp
qed













text \<open>
  C6, as the claim states it, fails in its reason: max-possible does not stay 0. One
  unmatched update on \<open>ties\<close> raises it to 4.5 (3 times the weight 1.5), although the
  score is still 0.
\<close>

theorem max_possible_grows_counterexample:
  "list_all unmatched_call [(''ties'', 2, ''hello there'')]
   \<and> max_possible (updates [(''ties'', 2, ''hello there'')] reset) = 9 / 2
   \<and> max_possible (updates [(''ties'', 2, ''hello there'')] reset) \<noteq> 0"
  by code_simp

text \<open>
  C6, amended. For every sequence of \<open>update\<close> calls on a fresh scorer in which no call
  is matched, \<open>score()\<close> returns 0: max-possible grows with every call on a non-empty
  answer, but the points stay 0, all four evidence categories stay uncovered and every
  quality value is 4, so the total is negative before the clamp.
\<close>

theorem unmatched_updates_score_zero:
  "list_all unmatched_call calls \<Longrightarrow> score (updates calls reset) = 0"
  using no_credit_score [OF no_credit_updates [OF no_credit_reset]] by simp

theorem unmatched_updates_score_zero_witness:
  "list_all unmatched_call [(''ties'', 2, ''hello there''), (''funds'', 3, ''we will see'')]
   \<and> score (updates [(''ties'', 2, ''hello there''), (''funds'', 3, ''we will see'')] reset) = 0"
proof -
  have h: "list_all unmatched_call [(''ties'', 2, ''hello there''), (''funds'', 3, ''we will see'')]"
    by code_simp
  show ?thesis using h unmatched_updates_score_zero [OF h] by simp
qed

section \<open>The escalation tracker\<close>

lemma analyze_response_threshold:
  "ap_threshold (fst (analyze_response u a n tr)) = ap_threshold tr"
  by (simp add: analyze_response_def Let_def split: prod.splits if_splits)

lemma analyze_all_threshold: "ap_threshold (analyze_all calls tr) = ap_threshold tr"
  by (induction calls arbitrary: tr) (auto simp: analyze_response_threshold)

lemma analyze_response_reports:
  "should_escalate_ap (snd (analyze_response u a n tr))
     = underscore_should_escalate_to_ap (fst (analyze_response u a n tr))"
  by (simp add: analyze_response_def Let_def split: prod.splits if_splits)

text \<open>
  C3. After any sequence of \<open>analyze_response\<close> calls on a fresh tracker, the flag
  \<open>should_escalate_ap\<close> that a call reports is true exactly when the sum of the four
  counters, as the call leaves them, is at least 2; and for every combination of the four
  counters \<open>_should_escalate_to_ap\<close> is true exactly when their sum is at least 2.
\<close>

theorem escalation_iff_total_at_least_two:
  "should_escalate_ap (snd (analyze_response user_text analysis turn_no (analyze_all calls tracker_init)))
     = (2 \<le> financial_triggers (fst (analyze_response user_text analysis turn_no (analyze_all calls tracker_init)))
          + academic_triggers (fst (analyze_response user_text analysis turn_no (analyze_all calls tracker_init)))
          + consistency_triggers (fst (analyze_response user_text analysis turn_no (analyze_all calls tracker_init)))
          + credibility_triggers (fst (analyze_response user_text analysis turn_no (analyze_all calls tracker_init))))
   \<and> underscore_should_escalate_to_ap
        (tracker_init\<lparr>financial_triggers := f, academic_triggers := a,
                      consistency_triggers := c, credibility_triggers := r\<rparr>)
     = (2 \<le> f + a + c + r)"
proof -
  have "ap_threshold (fst (analyze_response user_text analysis turn_no (analyze_all calls tracker_init))) = 2"
    by (simp add: analyze_response_threshold analyze_all_threshold tracker_init_def)
  then show ?thesis
    by (simp add: analyze_response_reports underscore_should_escalate_to_ap_def Let_def tracker_init_def)
qed

section \<open>The answer analysis\<close>

text \<open>
  C9. The claim makes an answer vague when it has fewer than four tokens or an
  uncertainty phrase occurs in the lowercased text. The source tests the phrases against
  the set of tokens, where a phrase of several words is never found: the answer below has
  seven tokens and contains \<open>not sure\<close>, the substring test \<open>uncertainty_detected\<close> on
  the same list finds it, and \<open>vague\<close> is false.
\<close>

theorem vague_misses_phrases:
  "vague (AnswerAnalysis ''I am not sure about that plan'') = False
   \<and> length_tokens (AnswerAnalysis ''I am not sure about that plan'') = 7
   \<and> contains ''not sure'' (lower (AnswerAnalysis ''I am not sure about that plan''))
   \<and> uncertainty_detected (AnswerAnalysis ''I am not sure about that plan'') = True"
  by code_simp

section \<open>The topic tracker\<close>















section \<open>The session controller\<close>

lemma make_final_decision_attribute_error:
  "make_final_decision s = Inl (AttributeError ''should_escalate_to_ap'')"
  by (simp add: make_final_decision_def call_tracker_predicate_def tracker_predicates_def)

lemma run_raises:
  assumes "fst (turn_loop major stt llm 0 max_turns (speak_and_log opening InterviewSession_init)) = Inr None"
  shows "fst (run max_turns major opening stt llm) = Inl (AttributeError ''should_escalate_to_ap'')"
proof -
  obtain s where "turn_loop major stt llm 0 max_turns (speak_and_log opening InterviewSession_init) = (Inr None, s)"
    using assms by (cases "turn_loop major stt llm 0 max_turns (speak_and_log opening InterviewSession_init)") simp
  then show ?thesis by (simp add: run_def make_final_decision_attribute_error)
qed

lemma nine_answered_turns:
  "fst (turn_loop [] (\<lambda>n. Some ''I will return home'') (\<lambda>n. None) 0 9
          (speak_and_log ''Hello, pass me your documents.'' InterviewSession_init)) = Inr None"
  by code_simp

text \<open>
  C1. The claim says that a session whose loop ends without a decision gets a final
  decision and that no exception leaves \<open>_make_final_decision\<close>. In the source
  \<open>_make_final_decision\<close> calls \<open>should_escalate_to_ap\<close>, a name the tracker does not
  define (its method is \<open>_should_escalate_to_ap\<close>): in every session state the call raises
  \<open>AttributeError\<close>, and so does a session of nine answered turns in which the language
  model never replies.
\<close>

theorem final_decision_raises:
  "make_final_decision s = Inl (AttributeError ''should_escalate_to_ap'')
   \<and> fst (run 9 [] ''Hello, pass me your documents.''
             (\<lambda>n. Some ''I will return home'') (\<lambda>n. None))
       = Inl (AttributeError ''should_escalate_to_ap'')"
  by (intro conjI make_final_decision_attribute_error run_raises nine_answered_turns)

lemma turn_loop_tracker:
  "ap_tracker (snd (turn_loop major stt llm n k s)) = ap_tracker s"
proof (induction k arbitrary: n s)
  case 0
  then show ?case by simp
next
  case (Suc k)
  show ?case
  proof (cases "falsy (stt n)")
    case True
    then show ?thesis using Suc.IH by (simp add: speak_and_log_def)
  next
    case nf: False
    define s2 where "s2 = (let s1 = s\<lparr>transcript := transcript s @ [''APPLICANT: '' @ text_of (stt n)]\<rparr> in
                  (if \<not> darwin_check_used (istate s1)
                     \<and> (bio_hint (AnswerAnalysis (text_of (stt n))) \<or> contains ''biology'' (str_lower major))
                  then s1\<lparr>istate := (istate s1)\<lparr>darwin_check_used := True\<rparr>\<rparr>
                  else s1))"
    have s2: "ap_tracker s2 = ap_tracker s" by (simp add: s2_def Let_def)
    show ?thesis
    proof (cases "falsy (llm n)")
      case True
      then show ?thesis using nf Suc.IH s2 by (simp add: Let_def speak_and_log_def s2_def)
    next
      case False
      obtain res sc where p: "parse_ai_with_ap (llm n) (text_of (stt n)) (scorer s2) = (res, sc)"
        by (cases "parse_ai_with_ap (llm n) (text_of (stt n)) (scorer s2)")
      show ?thesis
      proof (cases res)
        case (Inl e)
        then show ?thesis using nf False p s2 by (simp add: Let_def s2_def)
      next
        case (Inr r)
        then show ?thesis using nf False p s2 Suc.IH
          by (simp add: Let_def s2_def speak_and_log_def handle_decision_def
                   split: option.splits prod.splits)
      qed
    qed
  qed
qed

text \<open>
  C5. The claim says that the controller feeds the escalation tracker on every parsed
  reply, so that its counters can increase during a session. In the source \<open>run\<close> never
  calls \<open>analyze_response\<close>: whatever the transcriber and the language model return,
  and however many turns run, the tracker of the session is the fresh one, all four
  counters 0.
\<close>

theorem tracker_never_fed:
  "ap_tracker (snd (run max_turns major opening stt llm)) = tracker_init"
proof -
  have a: "ap_tracker (snd (turn_loop major stt llm 0 max_turns
             (speak_and_log opening InterviewSession_init))) = tracker_init"
    by (simp add: turn_loop_tracker speak_and_log_def InterviewSession_init_def)
  obtain res s where r: "turn_loop major stt llm 0 max_turns
             (speak_and_log opening InterviewSession_init) = (res, s)"
    by (cases "turn_loop major stt llm 0 max_turns (speak_and_log opening InterviewSession_init)")
  show ?thesis using a r
    by (simp add: run_def make_final_decision_attribute_error split: sum.splits option.splits)
qed

text \<open>
  C4, as the claim states it, fails: the test is on the index of the loop iteration, not
  on a count of consecutive failures. Two answered turns followed by a single turn
  without an answer end the session with DENIED at once.
\<close>

theorem first_failure_denied_counterexample:
  "\<not> falsy (replies [Some ''I will study biology'', Some ''My father pays'', None] 0)
   \<and> \<not> falsy (replies [Some ''I will study biology'', Some ''My father pays'', None] 1)
   \<and> falsy (replies [Some ''I will study biology'', Some ''My father pays'', None] 2)
   \<and> fst (run 9 [] ''Hello, pass me your documents.''
             (replies [Some ''I will study biology'', Some ''My father pays'', None])
             (replies [Some ''QUESTION: Who pays?'', Some ''QUESTION: What next?'']))
       = Inr (''DENIED'', ''Unable to provide clear responses during interview.'')"
  by code_simp

text \<open>
  C4, amended. When the transcriber yields no answer in loop iteration \<open>n\<close> (counted
  from 0): if \<open>n < 2\<close> the controller speaks the fixed clarification prompt and goes on
  with the next iteration, the turn counter of the interview state unchanged (the
  iteration is spent, not retried); if \<open>n \<ge> 2\<close> the session ends at once with DENIED,
  "Unable to provide clear responses during interview.", whatever came before. In
  particular a session whose first three iterations get no answer ends with DENIED
  after two clarification prompts, with the turn counter still 0.
\<close>

theorem no_answer_turns:
  "(falsy (stt n) \<and> n < 2 \<longrightarrow>
      turn_loop major stt llm n (Suc k) s
        = turn_loop major stt llm (Suc n) k
            (s\<lparr>transcript := transcript s @ [''OFFICER: '' @ clarification_prompt]\<rparr>))
   \<and> (falsy (stt n) \<and> 2 \<le> n \<longrightarrow>
        turn_loop major stt llm n (Suc k) s = (Inr (Some no_answer_decision), s))
   \<and> (falsy (stt 0) \<and> falsy (stt 1) \<and> falsy (stt 2) \<and> 3 \<le> max_turns \<longrightarrow>
        run max_turns major opening stt llm
          = (Inr no_answer_decision,
             InterviewSession_init\<lparr>transcript :=
               [''OFFICER: '' @ opening, ''OFFICER: '' @ clarification_prompt,
                ''OFFICER: '' @ clarification_prompt]\<rparr>))"
proof (intro conjI impI)
  assume "falsy (stt n) \<and> n < 2"
  then show "turn_loop major stt llm n (Suc k) s
        = turn_loop major stt llm (Suc n) k
            (s\<lparr>transcript := transcript s @ [''OFFICER: '' @ clarification_prompt]\<rparr>)"
    by (simp add: speak_and_log_def)
next
  assume "falsy (stt n) \<and> 2 \<le> n"
  then show "turn_loop major stt llm n (Suc k) s = (Inr (Some no_answer_decision), s)" by simp
next
  assume h: "falsy (stt 0) \<and> falsy (stt 1) \<and> falsy (stt 2) \<and> 3 \<le> max_turns"
  then obtain k where k: "max_turns = Suc (Suc (Suc k))"
    by (metis Suc_le_D numeral_3_eq_3 Suc_le_mono)
  have one: "falsy (stt (Suc 0))" using h by simp
  have two: "falsy (stt (Suc (Suc 0)))" using h by (simp add: numeral_2_eq_2)
  show "run max_turns major opening stt llm
          = (Inr no_answer_decision,
             InterviewSession_init\<lparr>transcript :=
               [''OFFICER: '' @ opening, ''OFFICER: '' @ clarification_prompt,
                ''OFFICER: '' @ clarification_prompt]\<rparr>)"
    using h one two unfolding k run_def
    by (simp add: speak_and_log_def InterviewSession_init_def)
qed

theorem no_answer_turns_witness:
  "falsy (replies [None, Some [], None] 0) \<and> falsy (replies [None, Some [], None] 1)
   \<and> falsy (replies [None, Some [], None] 2) \<and> (3::nat) \<le> 9
   \<and> run 9 [] ''Hello, pass me your documents.'' (replies [None, Some [], None]) (replies [])
       = (Inr no_answer_decision,
          InterviewSession_init\<lparr>transcript :=
            [''OFFICER: '' @ ''Hello, pass me your documents.'',
             ''OFFICER: '' @ clarification_prompt, ''OFFICER: '' @ clarification_prompt]\<rparr>)
   \<and> turn (istate (snd (run 9 [] ''Hello, pass me your documents.''
                          (replies [None, Some [], None]) (replies [])))) = 0"
proof -
  have h0: "falsy (replies [None, Some [], None] 0)" by (simp add: falsy_def replies_def)
  have h1: "falsy (replies [None, Some [], None] 1)" by (simp add: falsy_def replies_def)
  have h2: "falsy (replies [None, Some [], None] 2)" by (simp add: falsy_def replies_def)
  have h3: "(3::nat) \<le> 9" by simp
  have r: "run 9 [] ''Hello, pass me your documents.'' (replies [None, Some [], None]) (replies [])
       = (Inr no_answer_decision,
          InterviewSession_init\<lparr>transcript :=
            [''OFFICER: '' @ ''Hello, pass me your documents.'',
             ''OFFICER: '' @ clarification_prompt, ''OFFICER: '' @ clarification_prompt]\<rparr>)"
    using no_answer_turns [of "replies [None, Some [], None]" 0 "[]" "replies []" 0
            InterviewSession_init 9 "''Hello, pass me your documents.''"] h0 h1 h2 h3
    by blast
  have t: "turn (istate (snd (run 9 [] ''Hello, pass me your documents.''
                          (replies [None, Some [], None]) (replies [])))) = 0"
    unfolding r by (simp add: InterviewSession_init_def InterviewState_init_def)
  show ?thesis by (intro conjI h0 h1 h2 h3 r t)
qed



































end
